theory Spec2Isabelle
  imports Main
begin

section \<open>JavaScript values\<close>

text \<open>
  The values the evaluator meets. An answer set is the \<^verbatim>\<open>Record<string, any>\<close> kept by
  \<^verbatim>\<open>FormPreview\<close> and \<^verbatim>\<open>PublicForm\<close>: text inputs, selects and radios store strings,
  checkboxes store booleans. A rule is read back from a \<^verbatim>\<open>jsonb\<close> column, so each of
  its properties is whatever JSON the column holds.

  A string is held as its UTF-8 bytes, so an ASCII character is one \<^typ>\<open>char\<close>; strings
  that are not well-formed UTF-16 are not covered. A number and an object are each given
  by the text that \<^verbatim>\<open>String\<close> returns for them, which is all the evaluator can observe of
  them besides their truthiness: \<^verbatim>\<open>0\<close> and \<^verbatim>\<open>-0\<close> both print as \<^verbatim>\<open>0\<close>, and the only
  other falsy number prints as \<^verbatim>\<open>NaN\<close>. Objects include arrays and functions.
\<close>

datatype jsval =
    JUndefined
  | JNull
  | JBool bool
  | JNum string
  | JStr string
  | JObject string

text \<open>Truthiness, as used by \<^verbatim>\<open>!logic.enabled\<close> and \<^verbatim>\<open>sourceValue || ""\<close>.\<close>

fun truthy :: "jsval \<Rightarrow> bool" where
  "truthy JUndefined = False"
| "truthy JNull = False"
| "truthy (JBool b) = b"
| "truthy (JNum n) = (n \<noteq> ''0'' \<and> n \<noteq> ''NaN'')"
| "truthy (JStr s) = (s \<noteq> [])"
| "truthy (JObject x) = True"

definition js_or :: "jsval \<Rightarrow> jsval \<Rightarrow> jsval" where
  "js_or a b = (if truthy a then a else b)"

text \<open>\<^verbatim>\<open>String(v)\<close>.\<close>

fun String_js :: "jsval \<Rightarrow> string" where
  "String_js JUndefined = ''undefined''"
| "String_js JNull = ''null''"
| "String_js (JBool b) = (if b then ''true'' else ''false'')"
| "String_js (JNum n) = n"
| "String_js (JStr s) = s"
| "String_js (JObject x) = x"

section \<open>What the runtime supplies\<close>

text \<open>
  Two things are fixed by the JavaScript runtime and not by this repository: the Unicode
  case mapping that \<^verbatim>\<open>toLowerCase\<close> applies to text beyond ASCII, and the text that
  \<^verbatim>\<open>String\<close> returns for a member of \<^verbatim>\<open>Object.prototype\<close>. Both are parameters of the
  model; what is proved holds for every runtime.
\<close>

record runtime =
  unicodeLower :: "string \<Rightarrow> string"
  inheritedText :: "string \<Rightarrow> string"

definition isAscii :: "string \<Rightarrow> bool" where
  "isAscii s = list_all (\<lambda>c. (of_char c :: nat) < 128) s"

text \<open>The case mapping of an ASCII character: \<open>A\<close> to \<open>Z\<close> are lowered, the rest is kept.\<close>

definition lowerChar :: "char \<Rightarrow> char" where
  "lowerChar c =
     (case map_of (zip ''ABCDEFGHIJKLMNOPQRSTUVWXYZ'' ''abcdefghijklmnopqrstuvwxyz'') c of
        None \<Rightarrow> c
      | Some d \<Rightarrow> d)"

text \<open>
  \<^verbatim>\<open>s.toLowerCase()\<close>: letter by letter on an ASCII string, the runtime's mapping on any
  other string.
\<close>

definition toLowerCase :: "runtime \<Rightarrow> string \<Rightarrow> string" where
  "toLowerCase rt s = (if isAscii s then map lowerChar s else unicodeLower rt s)"

text \<open>\<^verbatim>\<open>s.startsWith(t)\<close> and \<^verbatim>\<open>s.includes(t)\<close>: \<open>t\<close> occurs in \<open>s\<close> as a contiguous run.\<close>

fun startsWith :: "string \<Rightarrow> string \<Rightarrow> bool" where
  "startsWith s [] = True"
| "startsWith [] (y # t) = False"
| "startsWith (x # s) (y # t) = (x = y \<and> startsWith s t)"

fun includes_js :: "string \<Rightarrow> string \<Rightarrow> bool" where
  "includes_js [] t = (t = [])"
| "includes_js (x # s) t = (startsWith (x # s) t \<or> includes_js s t)"

section \<open>Rules, fields and answer sets\<close>

text \<open>
  \<^verbatim>\<open>interface ConditionalLogic\<close> declares a boolean \<^verbatim>\<open>enabled\<close> and four strings. The
  types are erased at run time and \<^verbatim>\<open>FormBuilder\<close> passes on what the column holds, so
  every property is a \<^typ>\<open>jsval\<close> here, \<^term>\<open>JUndefined\<close> when the property is missing.
  A column value that is no object has none of the five properties when it is truthy, and
  counts as no rule when it is falsy. (\<open>value_lit\<close> is the property \<^verbatim>\<open>value\<close>.)
\<close>

record ConditionalLogic =
  enabled :: jsval
  action :: jsval
  sourceFieldId :: jsval
  operator :: jsval
  value_lit :: jsval

text \<open>The \<^verbatim>\<open>{ id; field_name }\<close> entries the evaluator receives.\<close>

record FieldRef =
  field_id :: string
  field_name :: string

text \<open>\<^verbatim>\<open>interface Field\<close> of \<^verbatim>\<open>FormPreview\<close>.\<close>

record Field = FieldRef +
  field_type :: string
  field_label :: string
  placeholder :: string
  required :: bool
  options :: "string list option"
  order_index :: int
  conditional_logic :: "ConditionalLogic option"

text \<open>An answer set, by the keys written into it.\<close>

type_synonym answers = "string \<rightharpoonup> jsval"

text \<open>
  The property names every object inherits from \<^verbatim>\<open>Object.prototype\<close>. Each of them is
  an object or a function.
\<close>

definition inheritedNames :: "string list" where
  "inheritedNames =
     [''constructor'', ''hasOwnProperty'', ''isPrototypeOf'', ''propertyIsEnumerable'',
      ''toLocaleString'', ''toString'', ''valueOf'', ''__proto__'',
      ''__defineGetter__'', ''__defineSetter__'', ''__lookupGetter__'', ''__lookupSetter__'']"

text \<open>
  \<^verbatim>\<open>formData[name]\<close>. The answer sets are plain objects (\<^verbatim>\<open>{}\<close>, then
  \<^verbatim>\<open>{ ...prev, [fieldName]: value }\<close>): a key that was written reads as its value, any
  other key reads as the inherited member of that name, and as \<^verbatim>\<open>undefined\<close> when there
  is none.
\<close>

definition property :: "runtime \<Rightarrow> answers \<Rightarrow> string \<Rightarrow> jsval" where
  "property rt formData name =
     (case formData name of
        Some v \<Rightarrow> v
      | None \<Rightarrow>
          if name \<in> set inheritedNames then JObject (inheritedText rt name) else JUndefined)"

section \<open>The evaluator\<close>

datatype error = TypeError

text \<open>
  \<^verbatim>\<open>targetValue.toLowerCase()\<close>: a method of strings only. On \<^verbatim>\<open>undefined\<close> and
  \<^verbatim>\<open>null\<close> the property access throws, on any other value the property is not a
  function and the call throws.
\<close>

definition callToLowerCase :: "runtime \<Rightarrow> jsval \<Rightarrow> error + string" where
  "callToLowerCase rt v = (case v of JStr t \<Rightarrow> Inr (toLowerCase rt t) | _ \<Rightarrow> Inl TypeError)"

text \<open>
  The \<^verbatim>\<open>switch (logic.operator)\<close> of \<^verbatim>\<open>evaluateConditionalLogic\<close>, which assigns
  \<^verbatim>\<open>conditionMet\<close>. The variable starts as \<^verbatim>\<open>false\<close> and the switch has no default
  branch.
\<close>

definition conditionMet :: "runtime \<Rightarrow> jsval \<Rightarrow> jsval \<Rightarrow> jsval \<Rightarrow> error + bool" where
  "conditionMet rt oper sourceValue targetValue =
     (if oper = JStr ''equals'' then
        (case callToLowerCase rt targetValue of
           Inl e \<Rightarrow> Inl e
         | Inr t \<Rightarrow> Inr (toLowerCase rt (String_js (js_or sourceValue (JStr ''''))) = t))
      else if oper = JStr ''not_equals'' then
        (case callToLowerCase rt targetValue of
           Inl e \<Rightarrow> Inl e
         | Inr t \<Rightarrow> Inr (toLowerCase rt (String_js (js_or sourceValue (JStr ''''))) \<noteq> t))
      else if oper = JStr ''contains'' then
        (case callToLowerCase rt targetValue of
           Inl e \<Rightarrow> Inl e
         | Inr t \<Rightarrow>
             Inr (includes_js (toLowerCase rt (String_js (js_or sourceValue (JStr '''')))) t))
      else if oper = JStr ''not_empty'' then
        Inr (sourceValue \<noteq> JUndefined \<and> sourceValue \<noteq> JStr '''' \<and> sourceValue \<noteq> JNull
               \<and> sourceValue \<noteq> JBool False)
      else Inr False)"

definition evaluateConditionalLogic ::
  "runtime \<Rightarrow> ConditionalLogic option \<Rightarrow> answers \<Rightarrow> FieldRef list \<Rightarrow> error + bool" where
  "evaluateConditionalLogic rt logic formData fieldList =
     (case logic of
        None \<Rightarrow> Inr True
      | Some l \<Rightarrow>
          if \<not> truthy (enabled l) then Inr True
          else (case find (\<lambda>f. JStr (field_id f) = sourceFieldId l) fieldList of
                  None \<Rightarrow> Inr True
                | Some sourceField \<Rightarrow>
                    (let sourceValue = property rt formData (field_name sourceField);
                         targetValue = value_lit l
                     in case conditionMet rt (operator l) sourceValue targetValue of
                          Inl e \<Rightarrow> Inl e
                        | Inr c \<Rightarrow> Inr (if action l = JStr ''show'' then c else \<not> c))))"

text \<open>\<^verbatim>\<open>isFieldVisible\<close> of \<^verbatim>\<open>FormPreview\<close>.\<close>

definition isFieldVisible ::
  "runtime \<Rightarrow> Field list \<Rightarrow> answers \<Rightarrow> Field \<Rightarrow> error + bool" where
  "isFieldVisible rt fieldList previewData field =
     evaluateConditionalLogic rt (conditional_logic field) previewData
       (map (\<lambda>f. \<lparr>field_id = field_id f, field_name = field_name f\<rparr>) fieldList)"

text \<open>
  A runtime to run the model with. Its case mapping beyond ASCII changes nothing, and it
  prints every inherited member as a native function of that name.
\<close>

definition plainRuntime :: runtime where
  "plainRuntime =
     \<lparr>unicodeLower = (\<lambda>s. s),
      inheritedText = (\<lambda>name. ''function '' @ name @ ''() { [native code] }'')\<rparr>"

section \<open>Properties of the model\<close>

subsection \<open>Unfolding the evaluator\<close>

lemma evaluate_resolved:
  assumes "truthy (enabled l)"
    and "find (\<lambda>f. JStr (field_id f) = sourceFieldId l) refs = Some f"
  shows "evaluateConditionalLogic rt (Some l) formData refs =
           (case conditionMet rt (operator l) (property rt formData (field_name f)) (value_lit l) of
              Inl e \<Rightarrow> Inl e
            | Inr c \<Rightarrow> Inr (if action l = JStr ''show'' then c else \<not> c))"
  using assms by (simp add: evaluateConditionalLogic_def)

lemma evaluate_unresolved:
  assumes "find (\<lambda>f. JStr (field_id f) = sourceFieldId l) refs = None"
  shows "evaluateConditionalLogic rt (Some l) formData refs = Inr True"
  using assms by (simp add: evaluateConditionalLogic_def)

lemma find_no_id:
  "find (\<lambda>f. JStr (field_id f) = i) refs = None \<longleftrightarrow> i \<notin> (\<lambda>f. JStr (field_id f)) ` set refs"
  by (auto simp: find_None_iff)

lemma find_refs:
  "find (\<lambda>f. P (field_id f))
     (map (\<lambda>f. \<lparr>field_id = field_id f, field_name = field_name f\<rparr>) fieldList) =
   map_option (\<lambda>f. \<lparr>field_id = field_id f, field_name = field_name f\<rparr>)
     (find (\<lambda>f. P (field_id f)) fieldList)"
  by (induction fieldList) simp_all

lemma conditionMet_throws:
  "(\<exists>e. conditionMet rt oper v t = Inl e) \<longleftrightarrow>
     oper \<in> {JStr ''equals'', JStr ''not_equals'', JStr ''contains''} \<and> (\<forall>s. t \<noteq> JStr s)"
  by (cases t) (auto simp: conditionMet_def callToLowerCase_def)

lemma conditionMet_unknown:
  assumes "oper \<notin> {JStr ''equals'', JStr ''not_equals'', JStr ''contains'', JStr ''not_empty''}"
  shows "conditionMet rt oper v t = Inr False"
  using assms by (simp add: conditionMet_def)

subsection \<open>Strings\<close>



lemma includes_js_empty: "includes_js s []"
  by (cases s) simp_all



lemma toLowerCase_empty: "toLowerCase rt [] = []"
  by (simp add: toLowerCase_def isAscii_def)


subsection \<open>Rules that cannot hide a field\<close>

text \<open>
  C1. Whatever the answer set and the field collection, a field whose conditional rule is
  absent (\<^verbatim>\<open>null\<close>), or whose rule has an \<^verbatim>\<open>enabled\<close> flag that is false (or any other
  falsy value), is visible: \<^verbatim>\<open>evaluateConditionalLogic\<close> returns \<^verbatim>\<open>true\<close>, and so does
  \<^verbatim>\<open>isFieldVisible\<close> of the preview for such a field.
\<close>

theorem C1_absent_or_disabled_rule_is_visible:
  "((logic = None \<or> (\<exists>l. logic = Some l \<and> \<not> truthy (enabled l)))
      \<longrightarrow> evaluateConditionalLogic rt logic formData refs = Inr True)
   \<and> ((conditional_logic field = None
        \<or> (\<exists>l. conditional_logic field = Some l \<and> \<not> truthy (enabled l)))
      \<longrightarrow> isFieldVisible rt fieldList previewData field = Inr True)"
  by (auto simp: evaluateConditionalLogic_def isFieldVisible_def)

theorem C1_witness:
  "evaluateConditionalLogic plainRuntime
     (Some \<lparr>enabled = JBool False, action = JStr ''hide'', sourceFieldId = JStr ''f1'',
            operator = JStr ''equals'', value_lit = JStr ''yes''\<rparr>)
     [''subscribe'' \<mapsto> JStr ''yes'']
     [\<lparr>field_id = ''f1'', field_name = ''subscribe''\<rparr>] = Inr True
   \<and> isFieldVisible plainRuntime
     [\<lparr>field_id = ''f1'', field_name = ''subscribe'', field_type = ''checkbox'',
       field_label = ''Subscribe'', placeholder = [], required = False, options = None,
       order_index = 0, conditional_logic = None\<rparr>]
     [''subscribe'' \<mapsto> JBool True]
     \<lparr>field_id = ''f1'', field_name = ''subscribe'', field_type = ''checkbox'',
      field_label = ''Subscribe'', placeholder = [], required = False, options = None,
      order_index = 0, conditional_logic = None\<rparr> = Inr True"
  using C1_absent_or_disabled_rule_is_visible
    [where rt = plainRuntime
       and logic = "Some \<lparr>enabled = JBool False, action = JStr ''hide'',
               sourceFieldId = JStr ''f1'', operator = JStr ''equals'',
               value_lit = JStr ''yes''\<rparr>"
       and formData = "[''subscribe'' \<mapsto> JStr ''yes'']"
       and refs = "[\<lparr>field_id = ''f1'', field_name = ''subscribe''\<rparr>]"
       and field = "\<lparr>field_id = ''f1'', field_name = ''subscribe'', field_type = ''checkbox'',
          field_label = ''Subscribe'', placeholder = [], required = False, options = None,
          order_index = 0, conditional_logic = None\<rparr>"
       and fieldList = "[\<lparr>field_id = ''f1'', field_name = ''subscribe'',
          field_type = ''checkbox'', field_label = ''Subscribe'', placeholder = [],
          required = False, options = None, order_index = 0, conditional_logic = None\<rparr>]"
       and previewData = "[''subscribe'' \<mapsto> JBool True]"]
  by simp

text \<open>
  C2. An enabled rule whose \<^verbatim>\<open>sourceFieldId\<close> is the id of no field in the supplied
  collection makes the evaluator return \<^verbatim>\<open>true\<close>, whatever its action, operator,
  comparison literal and the answer set.
\<close>

theorem C2_unresolved_source_is_visible:
  assumes "truthy (enabled l)"
    and "sourceFieldId l \<notin> (\<lambda>f. JStr (field_id f)) ` set refs"
  shows "evaluateConditionalLogic rt (Some l) formData refs = Inr True"
  using assms by (simp add: evaluate_unresolved find_no_id)

theorem C2_witness:
  "truthy (JBool True)
   \<and> JStr ''gone'' \<notin> (\<lambda>f. JStr (field_id f)) ` set [\<lparr>field_id = ''f1'', field_name = ''subscribe''\<rparr>]
   \<and> evaluateConditionalLogic plainRuntime
        (Some \<lparr>enabled = JBool True, action = JStr ''hide'', sourceFieldId = JStr ''gone'',
               operator = JStr ''not_empty'', value_lit = JStr []\<rparr>)
        [''subscribe'' \<mapsto> JStr ''yes'']
        [\<lparr>field_id = ''f1'', field_name = ''subscribe''\<rparr>] = Inr True"
  using C2_unresolved_source_is_visible
    [where rt = plainRuntime
       and l = "\<lparr>enabled = JBool True, action = JStr ''hide'', sourceFieldId = JStr ''gone'',
             operator = JStr ''not_empty'', value_lit = JStr []\<rparr>"
       and refs = "[\<lparr>field_id = ''f1'', field_name = ''subscribe''\<rparr>]"
       and formData = "[''subscribe'' \<mapsto> JStr ''yes'']"]
  by simp

subsection \<open>Failing open, and where the evaluator does not\<close>

text \<open>
  C3, as stated, does not hold, in two ways. A rule without a \<^verbatim>\<open>value\<close> makes
  \<^verbatim>\<open>targetValue.toLowerCase()\<close> throw a \<^verbatim>\<open>TypeError\<close>: the evaluator does signal a
  failure. And a rule whose operator is none of the four the \<^verbatim>\<open>switch\<close> knows cannot be
  evaluated, yet it is not shown: \<^verbatim>\<open>conditionMet\<close> keeps its initial \<^verbatim>\<open>false\<close>, and with
  action \<^verbatim>\<open>show\<close> the field is hidden.
\<close>

theorem C3_counterexample:
  "evaluateConditionalLogic plainRuntime
     (Some \<lparr>enabled = JBool True, action = JStr ''show'', sourceFieldId = JStr ''f1'',
            operator = JStr ''equals'', value_lit = JUndefined\<rparr>)
     [''age'' \<mapsto> JStr ''7'']
     [\<lparr>field_id = ''f1'', field_name = ''age''\<rparr>] = Inl TypeError
   \<and> evaluateConditionalLogic plainRuntime
     (Some \<lparr>enabled = JBool True, action = JStr ''show'', sourceFieldId = JStr ''f1'',
            operator = JStr ''greater_than'', value_lit = JStr ''5''\<rparr>)
     [''age'' \<mapsto> JStr ''7'']
     [\<lparr>field_id = ''f1'', field_name = ''age''\<rparr>] = Inr False"
  by (simp add: evaluateConditionalLogic_def conditionMet_def callToLowerCase_def)

text \<open>
  C3, amended. For every rule, malformed ones included, every answer set and every field
  collection, the evaluator returns a boolean, with one exception: it throws a
  \<^verbatim>\<open>TypeError\<close> exactly when the rule is enabled, its source field is found, its operator
  is \<^verbatim>\<open>equals\<close>, \<^verbatim>\<open>not_equals\<close> or \<^verbatim>\<open>contains\<close>, and its \<^verbatim>\<open>value\<close> is not a string. It
  returns \<^verbatim>\<open>true\<close> whenever the rule is absent, disabled, or names a source field that is
  not in the collection. An enabled rule with a source field that is found and an operator
  outside \<^verbatim>\<open>equals\<close>, \<^verbatim>\<open>not_equals\<close>, \<^verbatim>\<open>contains\<close>, \<^verbatim>\<open>not_empty\<close> has its condition
  count as not met: the result is \<^verbatim>\<open>false\<close> for action \<^verbatim>\<open>show\<close> and \<^verbatim>\<open>true\<close> for any
  other action. A rule that names the very field it conditions is evaluated like any other
  rule, against the answer stored under the name of the first field carrying that id.
\<close>

theorem C3_failure_and_fail_open:
  "((\<exists>e. evaluateConditionalLogic rt logic formData refs = Inl e) =
      (\<exists>l f. logic = Some l \<and> truthy (enabled l)
         \<and> find (\<lambda>f. JStr (field_id f) = sourceFieldId l) refs = Some f
         \<and> operator l \<in> {JStr ''equals'', JStr ''not_equals'', JStr ''contains''}
         \<and> (\<forall>t. value_lit l \<noteq> JStr t)))
   \<and> ((\<exists>b. evaluateConditionalLogic rt logic formData refs = Inr b) =
      (\<nexists>l f. logic = Some l \<and> truthy (enabled l)
         \<and> find (\<lambda>f. JStr (field_id f) = sourceFieldId l) refs = Some f
         \<and> operator l \<in> {JStr ''equals'', JStr ''not_equals'', JStr ''contains''}
         \<and> (\<forall>t. value_lit l \<noteq> JStr t)))
   \<and> ((logic = None
        \<or> (\<exists>l. logic = Some l
              \<and> (\<not> truthy (enabled l)
                 \<or> sourceFieldId l \<notin> (\<lambda>f. JStr (field_id f)) ` set refs)))
      \<longrightarrow> evaluateConditionalLogic rt logic formData refs = Inr True)
   \<and> ((truthy (enabled k) \<and> find (\<lambda>f. JStr (field_id f) = sourceFieldId k) refs = Some h
        \<and> operator k
             \<notin> {JStr ''equals'', JStr ''not_equals'', JStr ''contains'', JStr ''not_empty''})
      \<longrightarrow> evaluateConditionalLogic rt (Some k) formData refs = Inr (action k \<noteq> JStr ''show''))
   \<and> ((conditional_logic field = Some r \<and> truthy (enabled r)
        \<and> sourceFieldId r = JStr (field_id field)
        \<and> find (\<lambda>f. field_id f = field_id field) fieldList = Some g)
      \<longrightarrow> isFieldVisible rt fieldList previewData field =
            (case conditionMet rt (operator r) (property rt previewData (field_name g))
                    (value_lit r) of
               Inl e \<Rightarrow> Inl e
             | Inr c \<Rightarrow> Inr (if action r = JStr ''show'' then c else \<not> c)))"
proof (intro conjI impI)
  show throws: "(\<exists>e. evaluateConditionalLogic rt logic formData refs = Inl e) =
      (\<exists>l f. logic = Some l \<and> truthy (enabled l)
         \<and> find (\<lambda>f. JStr (field_id f) = sourceFieldId l) refs = Some f
         \<and> operator l \<in> {JStr ''equals'', JStr ''not_equals'', JStr ''contains''}
         \<and> (\<forall>t. value_lit l \<noteq> JStr t))"
  proof (cases logic)
    case None
    then show ?thesis by (simp add: evaluateConditionalLogic_def)
  next
    case (Some l)
    show ?thesis
    proof (cases "truthy (enabled l)")
      case False
      with Some show ?thesis by (simp add: evaluateConditionalLogic_def)
    next
      case True
      show ?thesis
      proof (cases "find (\<lambda>f. JStr (field_id f) = sourceFieldId l) refs")
        case None
        with Some show ?thesis by (simp add: evaluate_unresolved)
      next
        case (Some f)
        have "(\<exists>e. evaluateConditionalLogic rt (Some l) formData refs = Inl e) =
              (\<exists>e. conditionMet rt (operator l) (property rt formData (field_name f))
                      (value_lit l) = Inl e)"
          by (simp add: evaluate_resolved [OF True Some] split: sum.splits)
        with \<open>logic = Some l\<close> True Some show ?thesis
          by (simp add: conditionMet_throws)
      qed
    qed
  qed
  have "(\<exists>b. evaluateConditionalLogic rt logic formData refs = Inr b) =
        (\<nexists>e. evaluateConditionalLogic rt logic formData refs = Inl e)"
    by (cases "evaluateConditionalLogic rt logic formData refs") simp_all
  with throws show "(\<exists>b. evaluateConditionalLogic rt logic formData refs = Inr b) =
      (\<nexists>l f. logic = Some l \<and> truthy (enabled l)
         \<and> find (\<lambda>f. JStr (field_id f) = sourceFieldId l) refs = Some f
         \<and> operator l \<in> {JStr ''equals'', JStr ''not_equals'', JStr ''contains''}
         \<and> (\<forall>t. value_lit l \<noteq> JStr t))"
    by simp
next
  assume "logic = None
    \<or> (\<exists>l. logic = Some l
          \<and> (\<not> truthy (enabled l)
             \<or> sourceFieldId l \<notin> (\<lambda>f. JStr (field_id f)) ` set refs))"
  then show "evaluateConditionalLogic rt logic formData refs = Inr True"
    by (auto simp: evaluateConditionalLogic_def find_no_id [symmetric])
next
  assume a: "truthy (enabled k) \<and> find (\<lambda>f. JStr (field_id f) = sourceFieldId k) refs = Some h
    \<and> operator k
         \<notin> {JStr ''equals'', JStr ''not_equals'', JStr ''contains'', JStr ''not_empty''}"
  then have "conditionMet rt (operator k) (property rt formData (field_name h)) (value_lit k)
      = Inr False"
    by (simp add: conditionMet_unknown)
  with a show "evaluateConditionalLogic rt (Some k) formData refs = Inr (action k \<noteq> JStr ''show'')"
    by (simp add: evaluate_resolved)
next
  assume a: "conditional_logic field = Some r \<and> truthy (enabled r)
    \<and> sourceFieldId r = JStr (field_id field)
    \<and> find (\<lambda>f. field_id f = field_id field) fieldList = Some g"
  then have "find (\<lambda>f. JStr (field_id f) = sourceFieldId r)
      (map (\<lambda>f. \<lparr>field_id = field_id f, field_name = field_name f\<rparr>) fieldList)
    = Some \<lparr>field_id = field_id g, field_name = field_name g\<rparr>"
    using find_refs [of "\<lambda>i. JStr i = sourceFieldId r" fieldList] by simp
  with a show "isFieldVisible rt fieldList previewData field =
      (case conditionMet rt (operator r) (property rt previewData (field_name g))
              (value_lit r) of
         Inl e \<Rightarrow> Inl e
       | Inr c \<Rightarrow> Inr (if action r = JStr ''show'' then c else \<not> c))"
    by (simp add: isFieldVisible_def evaluate_resolved)
qed

theorem C3_witness:
  "evaluateConditionalLogic plainRuntime
     (Some \<lparr>enabled = JBool True, action = JStr ''show'', sourceFieldId = JStr ''gone'',
            operator = JStr ''equals'', value_lit = JUndefined\<rparr>)
     [''age'' \<mapsto> JStr ''7'']
     [\<lparr>field_id = ''f1'', field_name = ''age''\<rparr>] = Inr True
   \<and> evaluateConditionalLogic plainRuntime
     (Some \<lparr>enabled = JBool True, action = JStr ''hide'', sourceFieldId = JStr ''f1'',
            operator = JStr ''greater_than'', value_lit = JStr ''5''\<rparr>)
     [''age'' \<mapsto> JStr ''7'']
     [\<lparr>field_id = ''f1'', field_name = ''age''\<rparr>] = Inr True
   \<and> isFieldVisible plainRuntime
     [\<lparr>field_id = ''f1'', field_name = ''age'', field_type = ''text'',
       field_label = ''Age'', placeholder = [], required = False, options = None,
       order_index = 0,
       conditional_logic = Some \<lparr>enabled = JBool True, action = JStr ''hide'',
         sourceFieldId = JStr ''f1'', operator = JStr ''equals'', value_lit = JStr ''none''\<rparr>\<rparr>]
     [''age'' \<mapsto> JStr ''7'']
     \<lparr>field_id = ''f1'', field_name = ''age'', field_type = ''text'',
      field_label = ''Age'', placeholder = [], required = False, options = None,
      order_index = 0,
      conditional_logic = Some \<lparr>enabled = JBool True, action = JStr ''hide'',
        sourceFieldId = JStr ''f1'', operator = JStr ''equals'', value_lit = JStr ''none''\<rparr>\<rparr>
     = Inr True"
  using C3_failure_and_fail_open
    [where rt = plainRuntime
       and logic = "Some \<lparr>enabled = JBool True, action = JStr ''show'',
            sourceFieldId = JStr ''gone'', operator = JStr ''equals'', value_lit = JUndefined\<rparr>"
       and refs = "[\<lparr>field_id = ''f1'', field_name = ''age''\<rparr>]"
       and formData = "[''age'' \<mapsto> JStr ''7'']"
       and k = "\<lparr>enabled = JBool True, action = JStr ''hide'', sourceFieldId = JStr ''f1'',
            operator = JStr ''greater_than'', value_lit = JStr ''5''\<rparr>"
       and h = "\<lparr>field_id = ''f1'', field_name = ''age''\<rparr>"
       and field = "\<lparr>field_id = ''f1'', field_name = ''age'', field_type = ''text'',
            field_label = ''Age'', placeholder = [], required = False, options = None,
            order_index = 0,
            conditional_logic = Some \<lparr>enabled = JBool True, action = JStr ''hide'',
              sourceFieldId = JStr ''f1'', operator = JStr ''equals'',
              value_lit = JStr ''none''\<rparr>\<rparr>"
       and r = "\<lparr>enabled = JBool True, action = JStr ''hide'', sourceFieldId = JStr ''f1'',
            operator = JStr ''equals'', value_lit = JStr ''none''\<rparr>"
       and fieldList = "[\<lparr>field_id = ''f1'', field_name = ''age'', field_type = ''text'',
            field_label = ''Age'', placeholder = [], required = False, options = None,
            order_index = 0,
            conditional_logic = Some \<lparr>enabled = JBool True, action = JStr ''hide'',
              sourceFieldId = JStr ''f1'', operator = JStr ''equals'',
              value_lit = JStr ''none''\<rparr>\<rparr>]"
       and g = "\<lparr>field_id = ''f1'', field_name = ''age'', field_type = ''text'',
            field_label = ''Age'', placeholder = [], required = False, options = None,
            order_index = 0,
            conditional_logic = Some \<lparr>enabled = JBool True, action = JStr ''hide'',
              sourceFieldId = JStr ''f1'', operator = JStr ''equals'',
              value_lit = JStr ''none''\<rparr>\<rparr>"
       and previewData = "[''age'' \<mapsto> JStr ''7'']"]
  by (simp add: conditionMet_def callToLowerCase_def property_def js_or_def toLowerCase_def
      isAscii_def lowerChar_def)

subsection \<open>Show and hide\<close>




subsection \<open>The four operators\<close>



text \<open>
  C6, as stated, does not hold in its consequence. The answer set is a plain object, so a
  key that was never written still reads as the member of that name that every object
  inherits: for a source field named \<^verbatim>\<open>constructor\<close> and an empty answer set the source
  value is a function, the condition is met, and action \<^verbatim>\<open>show\<close> shows the field while
  action \<^verbatim>\<open>hide\<close> hides it.
\<close>

theorem C6_counterexample:
  "evaluateConditionalLogic plainRuntime
     (Some \<lparr>enabled = JBool True, action = JStr ''show'', sourceFieldId = JStr ''f1'',
            operator = JStr ''not_empty'', value_lit = JStr []\<rparr>)
     Map.empty
     [\<lparr>field_id = ''f1'', field_name = ''constructor''\<rparr>] = Inr True
   \<and> evaluateConditionalLogic plainRuntime
     (Some \<lparr>enabled = JBool True, action = JStr ''hide'', sourceFieldId = JStr ''f1'',
            operator = JStr ''not_empty'', value_lit = JStr []\<rparr>)
     Map.empty
     [\<lparr>field_id = ''f1'', field_name = ''constructor''\<rparr>] = Inr False"
  by (simp add: evaluateConditionalLogic_def conditionMet_def property_def inheritedNames_def)

text \<open>
  C6, amended. For an enabled rule with operator \<^verbatim>\<open>not_empty\<close> whose source field is
  found, the condition is true if and only if the source value is none of
  \<^verbatim>\<open>undefined\<close>, \<^verbatim>\<open>null\<close>, the empty string and \<^verbatim>\<open>false\<close>. With an empty answer set
  and a source field whose name is not one that every object inherits, action \<^verbatim>\<open>show\<close>
  therefore hides the field and action \<^verbatim>\<open>hide\<close> shows it.
\<close>

theorem C6_not_empty_is_filled:
  "conditionMet rt (JStr ''not_empty'') v t =
     Inr (v \<noteq> JUndefined \<and> v \<noteq> JNull \<and> v \<noteq> JStr '''' \<and> v \<noteq> JBool False)
   \<and> ((truthy (enabled l) \<and> operator l = JStr ''not_empty''
        \<and> find (\<lambda>f. JStr (field_id f) = sourceFieldId l) refs = Some f)
      \<longrightarrow> evaluateConditionalLogic rt (Some l) formData refs =
            Inr (if action l = JStr ''show''
                 then property rt formData (field_name f)
                        \<notin> {JUndefined, JNull, JStr '''', JBool False}
                 else property rt formData (field_name f)
                        \<in> {JUndefined, JNull, JStr '''', JBool False}))
   \<and> ((truthy (enabled l) \<and> operator l = JStr ''not_empty'' \<and> action l = JStr ''show''
        \<and> find (\<lambda>f. JStr (field_id f) = sourceFieldId l) refs = Some f
        \<and> field_name f \<notin> set inheritedNames)
      \<longrightarrow> evaluateConditionalLogic rt (Some l) Map.empty refs = Inr False)
   \<and> ((truthy (enabled l) \<and> operator l = JStr ''not_empty'' \<and> action l = JStr ''hide''
        \<and> find (\<lambda>f. JStr (field_id f) = sourceFieldId l) refs = Some f
        \<and> field_name f \<notin> set inheritedNames)
      \<longrightarrow> evaluateConditionalLogic rt (Some l) Map.empty refs = Inr True)"
proof (intro conjI impI)
  show "conditionMet rt (JStr ''not_empty'') v t =
      Inr (v \<noteq> JUndefined \<and> v \<noteq> JNull \<and> v \<noteq> JStr '''' \<and> v \<noteq> JBool False)"
    by (auto simp: conditionMet_def)
next
  assume "truthy (enabled l) \<and> operator l = JStr ''not_empty''
    \<and> find (\<lambda>f. JStr (field_id f) = sourceFieldId l) refs = Some f"
  then show "evaluateConditionalLogic rt (Some l) formData refs =
      Inr (if action l = JStr ''show''
           then property rt formData (field_name f)
                  \<notin> {JUndefined, JNull, JStr '''', JBool False}
           else property rt formData (field_name f)
                  \<in> {JUndefined, JNull, JStr '''', JBool False})"
    by (auto simp: evaluate_resolved conditionMet_def)
next
  assume "truthy (enabled l) \<and> operator l = JStr ''not_empty'' \<and> action l = JStr ''show''
    \<and> find (\<lambda>f. JStr (field_id f) = sourceFieldId l) refs = Some f
    \<and> field_name f \<notin> set inheritedNames"
  then show "evaluateConditionalLogic rt (Some l) Map.empty refs = Inr False"
    by (simp add: evaluate_resolved conditionMet_def property_def)
next
  assume "truthy (enabled l) \<and> operator l = JStr ''not_empty'' \<and> action l = JStr ''hide''
    \<and> find (\<lambda>f. JStr (field_id f) = sourceFieldId l) refs = Some f
    \<and> field_name f \<notin> set inheritedNames"
  then show "evaluateConditionalLogic rt (Some l) Map.empty refs = Inr True"
    by (simp add: evaluate_resolved conditionMet_def property_def)
qed

theorem C6_witness:
  "evaluateConditionalLogic plainRuntime
     (Some \<lparr>enabled = JBool True, action = JStr ''show'', sourceFieldId = JStr ''f1'',
            operator = JStr ''not_empty'', value_lit = JStr []\<rparr>)
     [''agree'' \<mapsto> JBool True]
     [\<lparr>field_id = ''f1'', field_name = ''agree''\<rparr>] = Inr True
   \<and> evaluateConditionalLogic plainRuntime
     (Some \<lparr>enabled = JBool True, action = JStr ''show'', sourceFieldId = JStr ''f1'',
            operator = JStr ''not_empty'', value_lit = JStr []\<rparr>)
     [''agree'' \<mapsto> JBool False]
     [\<lparr>field_id = ''f1'', field_name = ''agree''\<rparr>] = Inr False
   \<and> evaluateConditionalLogic plainRuntime
     (Some \<lparr>enabled = JBool True, action = JStr ''show'', sourceFieldId = JStr ''f1'',
            operator = JStr ''not_empty'', value_lit = JStr []\<rparr>)
     Map.empty
     [\<lparr>field_id = ''f1'', field_name = ''agree''\<rparr>] = Inr False
   \<and> evaluateConditionalLogic plainRuntime
     (Some \<lparr>enabled = JBool True, action = JStr ''hide'', sourceFieldId = JStr ''f1'',
            operator = JStr ''not_empty'', value_lit = JStr []\<rparr>)
     Map.empty
     [\<lparr>field_id = ''f1'', field_name = ''agree''\<rparr>] = Inr True"
  using C6_not_empty_is_filled
    [where rt = plainRuntime
       and l = "\<lparr>enabled = JBool True, action = JStr ''show'', sourceFieldId = JStr ''f1'',
            operator = JStr ''not_empty'', value_lit = JStr []\<rparr>"
       and refs = "[\<lparr>field_id = ''f1'', field_name = ''agree''\<rparr>]"
       and f = "\<lparr>field_id = ''f1'', field_name = ''agree''\<rparr>"
       and formData = "[''agree'' \<mapsto> JBool True]"]
    C6_not_empty_is_filled
    [where rt = plainRuntime
       and l = "\<lparr>enabled = JBool True, action = JStr ''show'', sourceFieldId = JStr ''f1'',
            operator = JStr ''not_empty'', value_lit = JStr []\<rparr>"
       and refs = "[\<lparr>field_id = ''f1'', field_name = ''agree''\<rparr>]"
       and f = "\<lparr>field_id = ''f1'', field_name = ''agree''\<rparr>"
       and formData = "[''agree'' \<mapsto> JBool False]"]
    C6_not_empty_is_filled
    [where rt = plainRuntime
       and l = "\<lparr>enabled = JBool True, action = JStr ''hide'', sourceFieldId = JStr ''f1'',
            operator = JStr ''not_empty'', value_lit = JStr []\<rparr>"
       and refs = "[\<lparr>field_id = ''f1'', field_name = ''agree''\<rparr>]"
       and f = "\<lparr>field_id = ''f1'', field_name = ''agree''\<rparr>"]
  by (simp add: property_def inheritedNames_def)

text \<open>
  C7. For every source value and comparison literal, the condition computed for operator
  \<^verbatim>\<open>not_equals\<close> is the negation of the one computed for \<^verbatim>\<open>equals\<close>. (With a literal
  that is not a string both throw.)
\<close>

theorem C7_not_equals_complements_equals:
  "conditionMet rt (JStr ''not_equals'') v t =
     (case conditionMet rt (JStr ''equals'') v t of Inl e \<Rightarrow> Inl e | Inr b \<Rightarrow> Inr (\<not> b))
   \<and> (\<exists>b. conditionMet rt (JStr ''equals'') v (JStr s) = Inr b
          \<and> conditionMet rt (JStr ''not_equals'') v (JStr s) = Inr (\<not> b))"
  by (simp add: conditionMet_def callToLowerCase_def split: sum.splits)

theorem C7_witness:
  "conditionMet plainRuntime (JStr ''equals'') (JStr ''Yes'') (JStr ''yes'') = Inr True
   \<and> conditionMet plainRuntime (JStr ''not_equals'') (JStr ''Yes'') (JStr ''yes'') = Inr False
   \<and> conditionMet plainRuntime (JStr ''equals'') (JStr ''Yes'') (JStr ''no'') = Inr False
   \<and> conditionMet plainRuntime (JStr ''not_equals'') (JStr ''Yes'') (JStr ''no'') = Inr True"
  using C7_not_equals_complements_equals [of plainRuntime "JStr ''Yes''" "JStr ''yes''"]
    C7_not_equals_complements_equals [of plainRuntime "JStr ''Yes''" "JStr ''no''"]
  by (simp add: conditionMet_def callToLowerCase_def js_or_def toLowerCase_def isAscii_def
      lowerChar_def)



subsection \<open>What the result depends on\<close>

text \<open>
  C9. The result depends on the answer set only through the entry stored under the name
  of the resolved source field: two answer sets that agree on that key, in presence and
  in value, give the same result, however they differ elsewhere. (When no source field
  is resolved the answer set is not read at all.)
\<close>

theorem C9_only_the_source_answer_matters:
  assumes "\<forall>l f. logic = Some l
             \<longrightarrow> find (\<lambda>f. JStr (field_id f) = sourceFieldId l) refs = Some f
             \<longrightarrow> formData (field_name f) = formData' (field_name f)"
  shows "evaluateConditionalLogic rt logic formData refs =
         evaluateConditionalLogic rt logic formData' refs"
  using assms
  by (auto simp: evaluateConditionalLogic_def property_def split: option.splits)

theorem C9_witness:
  "evaluateConditionalLogic plainRuntime
     (Some \<lparr>enabled = JBool True, action = JStr ''show'', sourceFieldId = JStr ''f1'',
            operator = JStr ''equals'', value_lit = JStr ''yes''\<rparr>)
     [''subscribe'' \<mapsto> JStr ''Yes'', ''email'' \<mapsto> JStr ''a@b.c'']
     [\<lparr>field_id = ''f1'', field_name = ''subscribe''\<rparr>,
      \<lparr>field_id = ''f2'', field_name = ''email''\<rparr>]
   = evaluateConditionalLogic plainRuntime
     (Some \<lparr>enabled = JBool True, action = JStr ''show'', sourceFieldId = JStr ''f1'',
            operator = JStr ''equals'', value_lit = JStr ''yes''\<rparr>)
     [''subscribe'' \<mapsto> JStr ''Yes'', ''phone'' \<mapsto> JBool False]
     [\<lparr>field_id = ''f1'', field_name = ''subscribe''\<rparr>,
      \<lparr>field_id = ''f2'', field_name = ''email''\<rparr>]"
  using C9_only_the_source_answer_matters
    [where rt = plainRuntime
       and logic = "Some \<lparr>enabled = JBool True, action = JStr ''show'',
            sourceFieldId = JStr ''f1'', operator = JStr ''equals'', value_lit = JStr ''yes''\<rparr>"
       and refs = "[\<lparr>field_id = ''f1'', field_name = ''subscribe''\<rparr>,
          \<lparr>field_id = ''f2'', field_name = ''email''\<rparr>]"
       and formData = "[''subscribe'' \<mapsto> JStr ''Yes'', ''email'' \<mapsto> JStr ''a@b.c'']"
       and formData' = "[''subscribe'' \<mapsto> JStr ''Yes'', ''phone'' \<mapsto> JBool False]"]
  by simp

subsection \<open>An empty literal under \<^verbatim>\<open>contains\<close>\<close>

text \<open>
  C10. For an enabled rule with operator \<^verbatim>\<open>contains\<close>, an empty literal and a source
  field that is found, the condition is met for every source value, an absent one
  included: with action \<^verbatim>\<open>show\<close> the field is visible for every answer set, with
  action \<^verbatim>\<open>hide\<close> it is hidden for every answer set.
\<close>

theorem C10_contains_empty_literal_always_met:
  "conditionMet rt (JStr ''contains'') v (JStr []) = Inr True
   \<and> ((truthy (enabled l) \<and> operator l = JStr ''contains'' \<and> value_lit l = JStr []
        \<and> find (\<lambda>f. JStr (field_id f) = sourceFieldId l) refs = Some f)
      \<longrightarrow> evaluateConditionalLogic rt (Some l) formData refs = Inr (action l = JStr ''show''))"
  by (simp add: evaluate_resolved conditionMet_def callToLowerCase_def toLowerCase_empty
      includes_js_empty)

theorem C10_witness:
  "evaluateConditionalLogic plainRuntime
     (Some \<lparr>enabled = JBool True, action = JStr ''show'', sourceFieldId = JStr ''f1'',
            operator = JStr ''contains'', value_lit = JStr []\<rparr>)
     Map.empty
     [\<lparr>field_id = ''f1'', field_name = ''animal''\<rparr>] = Inr True
   \<and> evaluateConditionalLogic plainRuntime
     (Some \<lparr>enabled = JBool True, action = JStr ''hide'', sourceFieldId = JStr ''f1'',
            operator = JStr ''contains'', value_lit = JStr []\<rparr>)
     [''animal'' \<mapsto> JStr ''Blue Whale'']
     [\<lparr>field_id = ''f1'', field_name = ''animal''\<rparr>] = Inr False"
  using C10_contains_empty_literal_always_met
    [where rt = plainRuntime
       and l = "\<lparr>enabled = JBool True, action = JStr ''show'', sourceFieldId = JStr ''f1'',
            operator = JStr ''contains'', value_lit = JStr []\<rparr>"
       and refs = "[\<lparr>field_id = ''f1'', field_name = ''animal''\<rparr>]"
       and f = "\<lparr>field_id = ''f1'', field_name = ''animal''\<rparr>"
       and formData = "Map.empty"]
    C10_contains_empty_literal_always_met
    [where rt = plainRuntime
       and l = "\<lparr>enabled = JBool True, action = JStr ''hide'', sourceFieldId = JStr ''f1'',
            operator = JStr ''contains'', value_lit = JStr []\<rparr>"
       and refs = "[\<lparr>field_id = ''f1'', field_name = ''animal''\<rparr>]"
       and f = "\<lparr>field_id = ''f1'', field_name = ''animal''\<rparr>"
       and formData = "[''animal'' \<mapsto> JStr ''Blue Whale'']"]
  by simp

end
